theory Spec2Isabelle
  imports Complex_Main "HOL-Library.Char_ord" "HOL-Library.List_Lexorder"
begin

section \<open>Veterinary diagnostic simulator: game engine and persistent store\<close>

text \<open>
  The development embeds three source files:
  \<^item> \<^verbatim>\<open>client/hooks/use-veterinary-game.ts\<close>: the game progression engine
    (\<open>startNewCase\<close>, \<open>runDiagnosticTest\<close>, \<open>submitDiagnosis\<close>, \<open>submitTreatments\<close>,
    \<open>nextPhase\<close>);
  \<^item> \<^verbatim>\<open>client/lib/indexeddb-service.ts\<close>: the three object stores and the service
    methods that read and write them;
  \<^item> the page component \<open>VeterinaryGame\<close>, of which \<open>handleGameComplete\<close> and the submit
    handler of the treatment screen are modelled.

  JavaScript numbers are modelled as mathematical numbers, without rounding: \<open>real\<close>
  for times and scores, \<open>nat\<close> for the counters that start at zero and are only
  incremented, \<open>int\<close> for the score the engine computes (a sum of integers). A score
  read from the store is a \<open>jsnumber\<close>, which can also be \<open>NaN\<close> or an infinity. Dates
  are milliseconds since the epoch, as \<open>int\<close>.
\<close>

subsection \<open>Case and test definitions\<close>

datatype Difficulty = Medium | Hard

fun difficulty_label :: "Difficulty \<Rightarrow> string" where
  "difficulty_label Medium = ''medium''"
| "difficulty_label Hard = ''hard''"

text \<open>
  \<open>VeterinaryCase\<close> without the fields that only the screens read (\<open>animal\<close>,
  \<open>symptoms\<close>, \<open>ownerReport\<close>). A field called \<open>id\<close> in the source is \<open>id'\<close> here.
\<close>

record VeterinaryCase =
  id' :: string
  title :: string
  difficulty :: Difficulty
  correctDiagnosis :: string
  possibleDiagnoses :: "string list"
  recommendedTests :: "string list"
  correctTreatments :: "string list"
  completed :: bool

record DiagnosticTest =
  id' :: string
  name :: string
  cost :: real
  timeRequired :: real

text \<open>A measurement of a test result is a string or a number.\<close>

datatype measurement = Text string | Number int

record TestResult =
  testId :: string
  values' :: "(string \<times> measurement) list"
  interpretation' :: "string option"
  abnormal :: bool

subsection \<open>The game state\<close>

datatype GamePhase = Intake | Diagnosis | Treatment | Results

record GameState =
  currentCase :: "VeterinaryCase option"
  completedTests :: "TestResult list"
  selectedDiagnosis :: "string option"
  selectedTreatments :: "string list"
  score :: int
  timeElapsed :: real
  gamePhase :: GamePhase

definition initialGameState :: GameState where
  "initialGameState =
     \<lparr>currentCase = None, completedTests = [], selectedDiagnosis = None,
      selectedTreatments = [], score = 0, timeElapsed = 0, gamePhase = Intake\<rparr>"

text \<open>
  Every operation of the hook is a closure over the state of the render that created it
  (\<open>gameState\<close>) and hands React an updater that is applied to the pending state
  (\<open>prev\<close>). The model keeps the two apart: the guard and the score of
  \<open>runDiagnosticTest\<close> and \<open>submitTreatments\<close> read \<open>gameState\<close>, the update is made
  on \<open>prev\<close>. A call made on a rendered state with no update pending has
  \<open>gameState = prev\<close>.
\<close>

definition startNewCase :: "VeterinaryCase \<Rightarrow> GameState" where
  "startNewCase selectedCase =
     \<lparr>currentCase = Some selectedCase, completedTests = [], selectedDiagnosis = None,
      selectedTreatments = [], score = 0, timeElapsed = 0, gamePhase = Intake\<rparr>"

text \<open>
  The values of the mock result come from \<open>generateMockTestResults\<close>, a fixed table
  keyed by the test id, and the abnormal flag from \<open>Math.random() > 0.7\<close>; both are
  parameters here.
\<close>

definition runDiagnosticTest ::
  "GameState \<Rightarrow> DiagnosticTest \<Rightarrow> (string \<times> measurement) list \<Rightarrow> bool \<Rightarrow> GameState \<Rightarrow> GameState"
where
  "runDiagnosticTest gameState test mockValues isAbnormal prev =
     (case currentCase gameState of
        None \<Rightarrow> prev
      | Some c \<Rightarrow>
          let mockResult = \<lparr>testId = DiagnosticTest.id' test, values' = mockValues,
                            interpretation' = None, abnormal = isAbnormal\<rparr>
          in prev\<lparr>completedTests := completedTests prev @ [mockResult],
                  timeElapsed := timeElapsed prev + timeRequired test\<rparr>)"

definition submitDiagnosis :: "string \<Rightarrow> GameState \<Rightarrow> GameState" where
  "submitDiagnosis diagnosis prev =
     prev\<lparr>selectedDiagnosis := Some diagnosis, gamePhase := Treatment\<rparr>"

text \<open>
  \<open>gameState.selectedDiagnosis === gameState.currentCase.correctDiagnosis\<close> is false for
  \<open>null\<close>. The three summands are integers, so \<open>score\<close> is an \<open>int\<close>. The local
  \<open>totalScore\<close> is \<open>totalScore'\<close> here.
\<close>

text \<open>\<open>Array.prototype.includes\<close>.\<close>

fun array_includes :: "'a list \<Rightarrow> 'a \<Rightarrow> bool" where
  "array_includes [] x = False"
| "array_includes (y # ys) x = (y = x \<or> array_includes ys x)"

definition diagnosisScore :: "GameState \<Rightarrow> VeterinaryCase \<Rightarrow> int" where
  "diagnosisScore gameState c =
     (if selectedDiagnosis gameState = Some (correctDiagnosis c) then 100 else 0)"

definition treatmentScore :: "VeterinaryCase \<Rightarrow> string list \<Rightarrow> int" where
  "treatmentScore c treatments =
     int (length (filter (\<lambda>t. array_includes (correctTreatments c) t) treatments)) * 25"

definition timeBonus :: "GameState \<Rightarrow> int" where
  "timeBonus gameState = max 0 (100 - \<lfloor>timeElapsed gameState / 10\<rfloor>)"

definition totalScore' :: "GameState \<Rightarrow> VeterinaryCase \<Rightarrow> string list \<Rightarrow> int" where
  "totalScore' gameState c treatments =
     min 100 (diagnosisScore gameState c + treatmentScore c treatments + timeBonus gameState)"

definition submitTreatments :: "GameState \<Rightarrow> string list \<Rightarrow> GameState \<Rightarrow> GameState" where
  "submitTreatments gameState treatments prev =
     (case currentCase gameState of
        None \<Rightarrow> prev
      | Some c \<Rightarrow>
          prev\<lparr>selectedTreatments := treatments,
               score := totalScore' gameState c treatments,
               gamePhase := Results\<rparr>)"

text \<open>\<open>Array.prototype.indexOf\<close>: the first position of the element, or \<open>-1\<close>.\<close>

fun indexOf :: "'a list \<Rightarrow> 'a \<Rightarrow> int" where
  "indexOf [] x = -1"
| "indexOf (y # ys) x =
     (if y = x then 0 else (let i = indexOf ys x in if i < 0 then -1 else i + 1))"

definition phases :: "GamePhase list" where
  "phases = [Intake, Diagnosis, Treatment, Results]"

definition nextPhase :: "GameState \<Rightarrow> GameState" where
  "nextPhase prev =
     (let currentIndex = indexOf phases (gamePhase prev);
          nextIndex = min (currentIndex + 1) (int (length phases) - 1)
      in prev\<lparr>gamePhase := phases ! nat nextIndex\<rparr>)"

text \<open>The phase that follows a phase on the path of the specification.\<close>

fun phase_successor :: "GamePhase \<Rightarrow> GamePhase" where
  "phase_successor Intake = Diagnosis"
| "phase_successor Diagnosis = Treatment"
| "phase_successor Treatment = Results"
| "phase_successor Results = Results"

text \<open>
  The five operations are the only mutators of the state. An operation of a run carries
  the rendered state its closure reads, where it reads one; a run applies the operations
  in order to the initial state of the hook.
\<close>

datatype operation =
    StartNewCase VeterinaryCase
  | RunDiagnosticTest GameState DiagnosticTest "(string \<times> measurement) list" bool
  | SubmitDiagnosis string
  | SubmitTreatments GameState "string list"
  | NextPhase

fun perform :: "operation \<Rightarrow> GameState \<Rightarrow> GameState" where
  "perform (StartNewCase selectedCase) prev = startNewCase selectedCase"
| "perform (RunDiagnosticTest gameState test mockValues isAbnormal) prev =
     runDiagnosticTest gameState test mockValues isAbnormal prev"
| "perform (SubmitDiagnosis diagnosis) prev = submitDiagnosis diagnosis prev"
| "perform (SubmitTreatments gameState treatments) prev =
     submitTreatments gameState treatments prev"
| "perform NextPhase prev = nextPhase prev"

definition engine_run :: "operation list \<Rightarrow> GameState" where
  "engine_run ops = foldl (\<lambda>prev op. perform op prev) initialGameState ops"

text \<open>A case and states of a game on it, for the concrete instances below.\<close>

definition exampleCase :: VeterinaryCase where
  "exampleCase =
     \<lparr>VeterinaryCase.id' = ''case-001'', title = ''Lethargic dog'', difficulty = Medium,
      correctDiagnosis = ''Hypothyroidism'',
      possibleDiagnoses = [''Hypothyroidism'', ''Diabetes mellitus''],
      recommendedTests = [''thyroid-panel''],
      correctTreatments = [''Levothyroxine'', ''Diet management''],
      completed = False\<rparr>"

definition exampleState :: "string option \<Rightarrow> real \<Rightarrow> GameState" where
  "exampleState diagnosis elapsed =
     (startNewCase exampleCase)\<lparr>selectedDiagnosis := diagnosis, timeElapsed := elapsed\<rparr>"

definition exampleTest :: DiagnosticTest where
  "exampleTest =
     \<lparr>DiagnosticTest.id' = ''thyroid-panel'', name = ''Thyroid panel'', cost = 120,
      timeRequired = 45\<rparr>"

subsection \<open>Numbers and properties as the store may hold them\<close>

text \<open>
  A stored record is whatever was written under its key. \<open>jsnumber\<close> is a value whose
  \<open>typeof\<close> is \<open>'number'\<close>: a finite number, \<open>NaN\<close> or one of the two infinities. A
  property that may be missing is an \<open>option\<close>.
\<close>

datatype jsnumber = Num real | NaN | PosInfinity | NegInfinity





fun typeof_number :: "jsnumber option \<Rightarrow> bool" where
  "typeof_number None = False"
| "typeof_number (Some v) = True"


text \<open>Truthiness of a string property: missing and the empty string are falsy.\<close>

fun truthy :: "string option \<Rightarrow> bool" where
  "truthy None = False"
| "truthy (Some s) = (s \<noteq> [])"


text \<open>\<open>new Date (x)\<close> drops the fraction of a millisecond count.\<close>

definition js_trunc :: "real \<Rightarrow> int" where
  "js_trunc x = (if 0 \<le> x then \<lfloor>x\<rfloor> else \<lceil>x\<rceil>)"


datatype property = Count nat | Appended nat

text \<open>
  \<open>GameSession\<close> as a record of the \<open>gameSessions\<close> store. \<open>id\<close> is the key path of the
  store, so every stored record has one. The properties that the readers check before
  use (\<open>caseId\<close>, \<open>score\<close>, \<open>difficulty\<close>) may be missing, and so may \<open>startTime\<close>,
  the key of the index the readers go through.
\<close>

record GameSession =
  id' :: string
  caseId :: "string option"
  startTime :: "int option"
  endTime :: "int option"
  score :: "jsnumber option"
  timeElapsed :: real
  selectedDiagnosis :: string
  correctDiagnosis :: string
  selectedTreatments :: "string list"
  correctTreatments :: "string list"
  testsPerformed :: "string list"
  difficulty :: "string option"

record UserData =
  id' :: string
  completedCases :: "string list"
  scores :: "string \<rightharpoonup> real"
  totalScore :: real
  gamesPlayed :: nat
  bestScore :: real
  averageScore :: real
  difficulty :: "string \<rightharpoonup> nat"
  lastPlayed :: int

text \<open>The record that \<open>markCaseCompleted\<close> builds (\<open>caseData\<close>).\<close>

record CaseCompletion =
  caseId :: string
  completed :: bool
  completionDate :: int
  bestScore :: real
  attempts :: nat
  difficulty :: string
  scores :: "real list"

subsection \<open>Object stores\<close>

text \<open>
  An object store is the list of its records in the order of their keys. \<open>get\<close> finds
  the record of a key, \<open>put\<close> replaces it or inserts it, \<open>add\<close> inserts it and fails
  when the key is taken. Keys are strings, ordered as lists of characters.
\<close>

datatype error = NotSupported | OpenError | ConstraintError | RequestError

definition store_get :: "('a \<Rightarrow> string) \<Rightarrow> string \<Rightarrow> 'a list \<Rightarrow> 'a option" where
  "store_get key k rs = find (\<lambda>r. key r = k) rs"

definition store_put :: "('a \<Rightarrow> string) \<Rightarrow> 'a \<Rightarrow> 'a list \<Rightarrow> 'a list" where
  "store_put key r rs = insort_key key r (filter (\<lambda>x. key x \<noteq> key r) rs)"

definition store_add :: "('a \<Rightarrow> string) \<Rightarrow> 'a \<Rightarrow> 'a list \<Rightarrow> error + 'a list" where
  "store_add key r rs =
     (case store_get key (key r) rs of
        Some x \<Rightarrow> Inl ConstraintError
      | None \<Rightarrow> Inr (insort_key key r rs))"

record database =
  userData :: "UserData list"
  gameSessions :: "GameSession list"
  caseCompletion :: "CaseCompletion list"

definition emptyDatabase :: database where
  "emptyDatabase = \<lparr>userData = [], gameSessions = [], caseCompletion = []\<rparr>"

text \<open>
  Every method of the service begins with \<open>if (!this.db) await this.init ()\<close> and then
  issues its request. What the environment does with one call is an \<open>io\<close>:
  \<^item> \<open>NoIndexedDB\<close>: the database is not open and \<open>window.indexedDB\<close> is missing, so
    \<open>init\<close> throws;
  \<^item> \<open>OpenFails\<close>: the database is not open and the open request fails, so \<open>init\<close>
    rejects;
  \<^item> \<open>RequestFails\<close>: the request of the method fires \<open>onerror\<close> and the method
    rejects with \<open>request.error\<close>, nothing written;
  \<^item> \<open>Works\<close>: the database is open, or opens, and the request succeeds.

  \<open>awaited io result\<close> is what a caller awaiting the method gets. \<open>getUserData\<close>,
  \<open>updateUserData\<close> and \<open>markCaseCompleted\<close> below are the methods where the call
  works; their callers await them through \<open>awaited\<close>.
\<close>

datatype io = NoIndexedDB | OpenFails | RequestFails | Works

fun rejection :: "io \<Rightarrow> error option" where
  "rejection NoIndexedDB = Some NotSupported"
| "rejection OpenFails = Some OpenError"
| "rejection RequestFails = Some RequestError"
| "rejection Works = None"

definition awaited :: "io \<Rightarrow> 'a \<Rightarrow> error + 'a" where
  "awaited io result = (case rejection io of Some e \<Rightarrow> Inl e | None \<Rightarrow> Inr result)"

text \<open>
  The index \<open>startTime\<close> holds the records that have the key, ordered by the key and,
  for equal keys, by the key of the store. A cursor opened with \<open>'prev'\<close> walks it
  backwards.
\<close>

definition startTime_index :: "GameSession list \<Rightarrow> (int \<times> GameSession) list" where
  "startTime_index rs =
     sort_key fst (List.map_filter (\<lambda>s. map_option (\<lambda>t. (t, s)) (startTime s)) rs)"

definition openCursor_prev :: "GameSession list \<Rightarrow> GameSession list" where
  "openCursor_prev rs = map snd (rev (startTime_index rs))"

subsection \<open>The service methods\<close>

definition defaultData :: "int \<Rightarrow> UserData" where
  "defaultData now =
     \<lparr>id' = ''player1'', completedCases = [], scores = Map.empty, totalScore = 0,
      gamesPlayed = 0, bestScore = 0, averageScore = 0,
      difficulty = [''medium'' \<mapsto> 0, ''hard'' \<mapsto> 0], lastPlayed = now\<rparr>"

definition getUserData :: "int \<Rightarrow> database \<Rightarrow> UserData" where
  "getUserData now db =
     (case store_get UserData.id' ''player1'' (userData db) of
        Some result \<Rightarrow> result
      | None \<Rightarrow> defaultData now)"

definition updateUserData :: "UserData \<Rightarrow> int \<Rightarrow> database \<Rightarrow> database" where
  "updateUserData newData now db =
     db\<lparr>userData := store_put UserData.id' (newData\<lparr>lastPlayed := now\<rparr>) (userData db)\<rparr>"

text \<open>
  \<open>saveGameSession\<close> rejects when the call is rejected and when the identity of the
  session is already stored.
\<close>

definition saveGameSession :: "io \<Rightarrow> GameSession \<Rightarrow> database \<Rightarrow> error + database" where
  "saveGameSession io session db =
     (case rejection io of
        Some e \<Rightarrow> Inl e
      | None \<Rightarrow>
          (case store_add GameSession.id' session (gameSessions db) of
             Inl e \<Rightarrow> Inl e
           | Inr rs \<Rightarrow> Inr (db\<lparr>gameSessions := rs\<rparr>)))"

text \<open>
  The shape check of \<open>getGameSessions\<close>:
  \<open>session && session.id && session.caseId && typeof session.score === 'number'\<close>.
\<close>

definition shape_ok :: "GameSession \<Rightarrow> bool" where
  "shape_ok session =
     (GameSession.id' session \<noteq> [] \<and> truthy (GameSession.caseId session)
      \<and> typeof_number (GameSession.score session))"

text \<open>
  The success handler of the cursor request, once for each record the cursor is on and
  once more at its end: the records still ahead, the limit, \<open>sessions\<close> and \<open>count\<close>.
  Nothing in the handler throws on a record of this shape, so its \<open>catch\<close> is not
  reached.
\<close>

fun cursor_loop ::
  "GameSession list \<Rightarrow> int \<Rightarrow> GameSession list \<Rightarrow> nat \<Rightarrow> GameSession list"
where
  "cursor_loop [] limit sessions count = sessions"
| "cursor_loop (session # ahead) limit sessions count =
     (if int count < limit
      then (if shape_ok session
            then cursor_loop ahead limit (sessions @ [session]) (Suc count)
            else cursor_loop ahead limit sessions count)
      else sessions)"

text \<open>
  \<open>getGameSessions\<close> rejects when \<open>init\<close> throws or rejects and when the cursor
  request fires \<open>onerror\<close>; otherwise it resolves with what the handler collected.
\<close>

definition getGameSessions :: "io \<Rightarrow> database \<Rightarrow> int \<Rightarrow> error + GameSession list" where
  "getGameSessions io db limit =
     (case rejection io of
        Some e \<Rightarrow> Inl e
      | None \<Rightarrow> Inr (cursor_loop (openCursor_prev (gameSessions db)) limit [] 0))"

definition markCaseCompleted :: "string \<Rightarrow> real \<Rightarrow> string \<Rightarrow> int \<Rightarrow> database \<Rightarrow> database" where
  "markCaseCompleted cid newScore diff now db =
     (let existing = store_get CaseCompletion.caseId cid (caseCompletion db);
          caseData =
            \<lparr>caseId = cid,
             completed = True,
             completionDate = now,
             bestScore = (case existing of
                            Some e \<Rightarrow> max (CaseCompletion.bestScore e) newScore
                          | None \<Rightarrow> newScore),
             attempts = (case existing of
                           Some e \<Rightarrow> attempts e + 1
                         | None \<Rightarrow> 1),
             difficulty = diff,
             scores = (case existing of
                         Some e \<Rightarrow> CaseCompletion.scores e @ [newScore]
                       | None \<Rightarrow> [newScore])\<rparr>
      in db\<lparr>caseCompletion := store_put CaseCompletion.caseId caseData (caseCompletion db)\<rparr>)"


subsection \<open>Statistics\<close>

record Statistics =
  gamesPlayed :: nat
  casesCompleted :: nat
  averageScore :: jsnumber
  bestScore :: jsnumber
  difficultyBreakdown :: "string \<rightharpoonup> property"
  recentSessions :: "GameSession list"






subsection \<open>Saving a completed game\<close>

text \<open>
  \<open>handleGameComplete\<close> of the page component. \<open>selectedCase\<close> and \<open>localDiagnosis\<close>
  are state of the component, \<open>gameState\<close> is the state of the engine at the render,
  \<open>sessionId\<close> stands for the generated identity and \<open>now\<close> for the clock, read as one
  instant during the call.
\<close>

definition newSession ::
  "VeterinaryCase \<Rightarrow> GameState \<Rightarrow> string \<Rightarrow> string \<Rightarrow> int \<Rightarrow> real \<Rightarrow> real \<Rightarrow> GameSession"
where
  "newSession c gameState localDiagnosis sessionId now newScore elapsed =
     \<lparr>GameSession.id' = sessionId,
      GameSession.caseId = Some (VeterinaryCase.id' c),
      GameSession.startTime = Some (js_trunc (real_of_int now - elapsed * 60000)),
      GameSession.endTime = Some now,
      GameSession.score = Some (Num newScore),
      GameSession.timeElapsed = elapsed,
      GameSession.selectedDiagnosis =
        (case GameState.selectedDiagnosis gameState of
           None \<Rightarrow> localDiagnosis
         | Some d \<Rightarrow> if d \<noteq> [] then d else localDiagnosis),
      GameSession.correctDiagnosis = VeterinaryCase.correctDiagnosis c,
      GameSession.selectedTreatments = GameState.selectedTreatments gameState,
      GameSession.correctTreatments = VeterinaryCase.correctTreatments c,
      GameSession.testsPerformed = map testId (completedTests gameState),
      GameSession.difficulty = Some (difficulty_label (VeterinaryCase.difficulty c))\<rparr>"

definition updatedUserData :: "UserData \<Rightarrow> VeterinaryCase \<Rightarrow> real \<Rightarrow> UserData" where
  "updatedUserData profile c newScore =
     profile
       \<lparr>UserData.gamesPlayed := UserData.gamesPlayed profile + 1,
        UserData.totalScore := UserData.totalScore profile + newScore,
        UserData.bestScore := max (UserData.bestScore profile) newScore,
        UserData.averageScore :=
          (UserData.totalScore profile + newScore) / real (UserData.gamesPlayed profile + 1),
        UserData.difficulty :=
          (UserData.difficulty profile)
            (difficulty_label (VeterinaryCase.difficulty c) \<mapsto>
               (case UserData.difficulty profile (difficulty_label (VeterinaryCase.difficulty c)) of
                  None \<Rightarrow> 0
                | Some n \<Rightarrow> n) + 1),
        UserData.completedCases :=
          (if array_includes (completedCases profile) (VeterinaryCase.id' c)
           then completedCases profile
           else completedCases profile @ [VeterinaryCase.id' c])\<rparr>"

text \<open>
  The four awaited calls of \<open>handleGameComplete\<close> stand in one \<open>try\<close>: the first that
  rejects ends the call, \<open>catch\<close> logs it, and what the earlier calls wrote stays
  written. \<open>completionIo\<close> says what the environment does with each of the four.
\<close>

record completionIo =
  saveIo :: io
  markIo :: io
  getIo :: io
  updateIo :: io

definition allWork :: completionIo where
  "allWork = \<lparr>saveIo = Works, markIo = Works, getIo = Works, updateIo = Works\<rparr>"

definition handleGameComplete ::
  "VeterinaryCase option \<Rightarrow> GameState \<Rightarrow> string \<Rightarrow> string \<Rightarrow> int \<Rightarrow> real \<Rightarrow> real
     \<Rightarrow> completionIo \<Rightarrow> database \<Rightarrow> database"
where
  "handleGameComplete selectedCase gameState localDiagnosis sessionId now newScore elapsed env db =
     (case selectedCase of
        None \<Rightarrow> db
      | Some c \<Rightarrow>
          (case saveGameSession (saveIo env)
                  (newSession c gameState localDiagnosis sessionId now newScore elapsed) db of
             Inl e \<Rightarrow> db
           | Inr db1 \<Rightarrow>
               (case awaited (markIo env)
                       (markCaseCompleted (VeterinaryCase.id' c) newScore
                          (difficulty_label (VeterinaryCase.difficulty c)) now db1) of
                  Inl e \<Rightarrow> db1
                | Inr db2 \<Rightarrow>
                    (case awaited (getIo env) (getUserData now db2) of
                       Inl e \<Rightarrow> db2
                     | Inr profile \<Rightarrow>
                         (case awaited (updateIo env)
                                 (updateUserData (updatedUserData profile c newScore) now db2) of
                            Inl e \<Rightarrow> db2
                          | Inr db3 \<Rightarrow> db3)))))"

text \<open>
  The submit handler of the treatment screen:
  \<open>setSelectedDiagnosis (diagnosis); setSelectedTreatments (treatments);
  submitTreatments (treatments); handleGameComplete (gameState.score, gameState.timeElapsed)\<close>.
  All four read the state of the render, so the score handed on is the score of the
  engine before \<open>submitTreatments\<close> takes effect. The result is the new diagnosis and
  treatments of the component, the new state of the engine and the database.
\<close>

definition onSubmit ::
  "VeterinaryCase option \<Rightarrow> GameState \<Rightarrow> string \<Rightarrow> string \<Rightarrow> string list \<Rightarrow> string \<Rightarrow> int
     \<Rightarrow> completionIo \<Rightarrow> database \<Rightarrow> string \<times> string list \<times> GameState \<times> database"
where
  "onSubmit selectedCase gameState localDiagnosis diagnosis treatments sessionId now env db =
     (diagnosis, treatments,
      submitTreatments gameState treatments gameState,
      handleGameComplete selectedCase gameState localDiagnosis sessionId now
        (real_of_int (GameState.score gameState)) (GameState.timeElapsed gameState) env db)"

subsection \<open>Concrete instances and the words of the specification\<close>

text \<open>A stored profile, and the same profile under another identity.\<close>

definition exampleProfile :: UserData where
  "exampleProfile =
     \<lparr>UserData.id' = ''player1'', completedCases = [''case-001''],
      UserData.scores = Map.empty, totalScore = 150,
      UserData.gamesPlayed = 2, UserData.bestScore = 90, UserData.averageScore = 75,
      UserData.difficulty = [''medium'' \<mapsto> 2, ''hard'' \<mapsto> 0], lastPlayed = 1000\<rparr>"

definition strangerProfile :: UserData where
  "strangerProfile = exampleProfile\<lparr>UserData.id' := ''player2''\<rparr>"

text \<open>\<open>getCaseStats\<close>: the completion record of a case, or \<open>null\<close>.\<close>

definition getCaseStats :: "string \<Rightarrow> database \<Rightarrow> CaseCompletion option" where
  "getCaseStats cid db = store_get CaseCompletion.caseId cid (caseCompletion db)"

text \<open>
  A sequence of \<open>markCaseCompleted\<close> calls, each with its case, score, difficulty and
  clock reading, and the scores that the calls for one case pass, in call order.
\<close>

definition markAll :: "(string \<times> real \<times> string \<times> int) list \<Rightarrow> database \<Rightarrow> database" where
  "markAll calls db =
     foldl (\<lambda>d (cid, newScore, diff, now). markCaseCompleted cid newScore diff now d) db calls"

definition scores_for :: "string \<Rightarrow> (string \<times> real \<times> string \<times> int) list \<Rightarrow> real list" where
  "scores_for cid calls = map (\<lambda>call. fst (snd call)) (filter (\<lambda>call. fst call = cid) calls)"

definition exampleCalls :: "(string \<times> real \<times> string \<times> int) list" where
  "exampleCalls =
     [(''case-001'', 60, ''medium'', 1000), (''case-002'', 95, ''hard'', 2000),
      (''case-001'', 85, ''medium'', 3000), (''case-001'', 70, ''medium'', 4000)]"

text \<open>
  Newest first: of two sessions of a list, the earlier one in the list has a start time
  that is not before the start time of the later one.
\<close>

fun not_older :: "GameSession \<Rightarrow> GameSession \<Rightarrow> bool" where
  "not_older a b =
     (case (startTime a, startTime b) of
        (Some x, Some y) \<Rightarrow> y \<le> x
      | _ \<Rightarrow> False)"

definition newest_first :: "GameSession list \<Rightarrow> bool" where
  "newest_first sessions = sorted_wrt not_older sessions"

text \<open>Stored sessions: two that are well formed and one without a score.\<close>

definition sessionA :: GameSession where
  "sessionA =
     \<lparr>GameSession.id' = ''session_1'', GameSession.caseId = Some ''case-001'',
      startTime = Some 5000, endTime = Some 6000, GameSession.score = Some (Num 80),
      GameSession.timeElapsed = 30, GameSession.selectedDiagnosis = ''Hypothyroidism'',
      GameSession.correctDiagnosis = ''Hypothyroidism'',
      GameSession.selectedTreatments = [''Levothyroxine''],
      GameSession.correctTreatments = [''Levothyroxine'', ''Diet management''],
      testsPerformed = [''thyroid-panel''], GameSession.difficulty = Some ''medium''\<rparr>"

definition sessionB :: GameSession where
  "sessionB =
     sessionA\<lparr>GameSession.id' := ''session_2'', startTime := Some 9000,
       GameSession.score := None\<rparr>"

definition sessionC :: GameSession where
  "sessionC =
     sessionA\<lparr>GameSession.id' := ''session_3'', startTime := Some 7000,
       GameSession.score := Some (Num 55), GameSession.difficulty := Some ''hard''\<rparr>"

definition exampleStore :: database where
  "exampleStore =
     \<lparr>userData = [], gameSessions = [sessionA, sessionB, sessionC], caseCompletion = []\<rparr>"

text \<open>A run of the engine up to the treatment screen, and one after an earlier submission.\<close>

definition exampleRun :: "operation list" where
  "exampleRun = [StartNewCase exampleCase, NextPhase, NextPhase]"

definition exampleRerun :: "operation list" where
  "exampleRerun =
     [StartNewCase exampleCase,
      SubmitTreatments (exampleState None 995) [''Levothyroxine'', ''Insulin'']]"






















section \<open>Properties of the game engine\<close>

subsection \<open>Scoring\<close>

lemma array_includes_iff: "array_includes xs x = (x \<in> set xs)"
  by (induction xs) auto

text \<open>
  Claim C1. With a case bound, the score that \<open>submitTreatments\<close> records is the formula
  of the specification: 100 for the correct diagnosis and 0 otherwise, plus 25 for each
  selected treatment that is among the correct treatments of the case, plus the time bonus
  \<open>max (0, 100 - floor (elapsedTime / 10))\<close>, the sum capped at 100.
\<close>
theorem submitTreatments_score:
  assumes "currentCase gameState = Some c"
  shows "GameState.score (submitTreatments gameState treatments prev) =
           min 100
             ((if GameState.selectedDiagnosis gameState = Some (VeterinaryCase.correctDiagnosis c)
               then 100 else 0)
              + 25 * int (length [t \<leftarrow> treatments. t \<in> set (VeterinaryCase.correctTreatments c)])
              + max 0 (100 - \<lfloor>GameState.timeElapsed gameState / 10\<rfloor>))"
  using assms
  by (simp add: submitTreatments_def totalScore'_def diagnosisScore_def treatmentScore_def
      timeBonus_def array_includes_iff)

text \<open>
  The boundary cases of the specification: a correct diagnosis with two correct
  treatments at time 0 scores 100, a wrong diagnosis with no correct treatment at time
  1000 scores 0, a correct diagnosis with one correct treatment at time 50 scores 100;
  and no diagnosis with one correct treatment at time 995 scores 26.
\<close>
theorem submitTreatments_score_witness:
  "GameState.score (submitTreatments (exampleState (Some ''Hypothyroidism'') 0)
      [''Levothyroxine'', ''Diet management''] (exampleState (Some ''Hypothyroidism'') 0)) = 100
   \<and> GameState.score (submitTreatments (exampleState (Some ''Diabetes mellitus'') 1000)
      [''Insulin''] (exampleState (Some ''Diabetes mellitus'') 1000)) = 0
   \<and> GameState.score (submitTreatments (exampleState (Some ''Hypothyroidism'') 50)
      [''Levothyroxine''] (exampleState (Some ''Hypothyroidism'') 50)) = 100
   \<and> GameState.score (submitTreatments (exampleState None 995)
      [''Levothyroxine'', ''Insulin''] (exampleState None 995)) = 26"
  using submitTreatments_score [of "exampleState (Some ''Hypothyroidism'') 0" exampleCase
          "[''Levothyroxine'', ''Diet management'']" "exampleState (Some ''Hypothyroidism'') 0"]
        submitTreatments_score [of "exampleState (Some ''Diabetes mellitus'') 1000" exampleCase
          "[''Insulin'']" "exampleState (Some ''Diabetes mellitus'') 1000"]
        submitTreatments_score [of "exampleState (Some ''Hypothyroidism'') 50" exampleCase
          "[''Levothyroxine'']" "exampleState (Some ''Hypothyroidism'') 50"]
        submitTreatments_score [of "exampleState None 995" exampleCase
          "[''Levothyroxine'', ''Insulin'']" "exampleState None 995"]
  by (simp add: exampleState_def startNewCase_def exampleCase_def)

text \<open>
  Claim C2 as stated asks for a no-op when no diagnosis has been submitted. On a state
  with a case bound and \<open>selectedDiagnosis = null\<close> the call changes the state: it
  moves to \<open>results\<close> and records the score 100.
\<close>
theorem submitTreatments_requires_diagnosis_counterexample:
  "GameState.selectedDiagnosis (exampleState None 0) = None
   \<and> submitTreatments (exampleState None 0) [''Levothyroxine''] (exampleState None 0)
       \<noteq> exampleState None 0
   \<and> gamePhase (submitTreatments (exampleState None 0) [''Levothyroxine''] (exampleState None 0))
       = Results
   \<and> GameState.score (submitTreatments (exampleState None 0) [''Levothyroxine'']
         (exampleState None 0)) = 100
   \<and> GameState.score (exampleState None 0) = 0"
proof -
  have phase: "gamePhase (submitTreatments (exampleState None 0) [''Levothyroxine'']
      (exampleState None 0)) = Results"
    by (simp add: submitTreatments_def exampleState_def startNewCase_def)
  have before: "gamePhase (exampleState None 0) = Intake"
    by (simp add: exampleState_def startNewCase_def)
  have changed: "submitTreatments (exampleState None 0) [''Levothyroxine''] (exampleState None 0)
      \<noteq> exampleState None 0"
    using phase before by auto
  have points: "GameState.score (submitTreatments (exampleState None 0) [''Levothyroxine'']
      (exampleState None 0)) = 100"
    by (simp add: submitTreatments_def exampleState_def startNewCase_def totalScore'_def
        diagnosisScore_def treatmentScore_def timeBonus_def exampleCase_def)
  show ?thesis
    using phase changed points by (simp add: exampleState_def startNewCase_def)
qed

text \<open>
  Claim C2, amended. \<open>submitTreatments\<close> is a no-op exactly when no case is bound. With a
  case bound it records the chosen treatments, records the computed score and moves to
  \<open>results\<close>, whether or not a diagnosis has been submitted.
\<close>
theorem submitTreatments_guard:
  "(currentCase gameState = None \<longrightarrow> submitTreatments gameState treatments prev = prev)
   \<and> (\<forall>c. currentCase gameState = Some c \<longrightarrow>
          submitTreatments gameState treatments prev =
            prev\<lparr>GameState.selectedTreatments := treatments,
                 GameState.score := totalScore' gameState c treatments,
                 gamePhase := Results\<rparr>
          \<and> gamePhase (submitTreatments gameState treatments prev) = Results
          \<and> GameState.selectedTreatments (submitTreatments gameState treatments prev) = treatments)"
  by (simp add: submitTreatments_def)

theorem submitTreatments_guard_witness:
  "currentCase initialGameState = None
   \<and> submitTreatments initialGameState [''Levothyroxine''] initialGameState = initialGameState
   \<and> currentCase (exampleState None 0) = Some exampleCase
   \<and> gamePhase (submitTreatments (exampleState None 0) [''Levothyroxine''] (exampleState None 0))
       = Results"
  using submitTreatments_guard [of initialGameState "[''Levothyroxine'']" initialGameState]
        submitTreatments_guard [of "exampleState None 0" "[''Levothyroxine'']" "exampleState None 0"]
  by (simp add: initialGameState_def exampleState_def startNewCase_def)

subsection \<open>Phases\<close>

lemma nextPhase_successor: "nextPhase prev = prev\<lparr>gamePhase := phase_successor (gamePhase prev)\<rparr>"
  by (cases "gamePhase prev") (simp_all add: nextPhase_def phases_def)

text \<open>
  Claim C8. \<open>nextPhase\<close> changes the phase only, to the next phase of
  intake, diagnosis, treatment, results; in \<open>results\<close> it returns the state as it is,
  so calling it again changes nothing.
\<close>
theorem nextPhase_steps_and_clamps:
  "nextPhase prev = prev\<lparr>gamePhase := phase_successor (gamePhase prev)\<rparr>
   \<and> (gamePhase prev = Intake \<longrightarrow> gamePhase (nextPhase prev) = Diagnosis)
   \<and> (gamePhase prev = Diagnosis \<longrightarrow> gamePhase (nextPhase prev) = Treatment)
   \<and> (gamePhase prev = Treatment \<longrightarrow> gamePhase (nextPhase prev) = Results)
   \<and> (gamePhase prev = Results \<longrightarrow> nextPhase prev = prev \<and> nextPhase (nextPhase prev) = nextPhase prev)"
proof -
  have step: "nextPhase prev = prev\<lparr>gamePhase := phase_successor (gamePhase prev)\<rparr>"
    by (rule nextPhase_successor)
  have a: "gamePhase prev = Intake \<longrightarrow> gamePhase (nextPhase prev) = Diagnosis"
    by (simp add: step)
  have b: "gamePhase prev = Diagnosis \<longrightarrow> gamePhase (nextPhase prev) = Treatment"
    by (simp add: step)
  have c: "gamePhase prev = Treatment \<longrightarrow> gamePhase (nextPhase prev) = Results"
    by (simp add: step)
  have last: "gamePhase prev = Results \<longrightarrow> nextPhase prev = prev"
    by (simp add: step)
  then have d: "gamePhase prev = Results \<longrightarrow>
      nextPhase prev = prev \<and> nextPhase (nextPhase prev) = nextPhase prev"
    by simp
  from step a b c d show ?thesis
    by blast
qed

theorem nextPhase_steps_and_clamps_witness:
  "gamePhase (nextPhase (exampleState None 0)) = Diagnosis
   \<and> gamePhase (nextPhase (nextPhase (exampleState None 0))) = Treatment
   \<and> gamePhase (nextPhase (nextPhase (nextPhase (exampleState None 0)))) = Results
   \<and> nextPhase (nextPhase (nextPhase (nextPhase (exampleState None 0))))
       = nextPhase (nextPhase (nextPhase (exampleState None 0)))"
proof -
  let ?s0 = "exampleState None 0"
  let ?s1 = "nextPhase ?s0"
  let ?s2 = "nextPhase ?s1"
  let ?s3 = "nextPhase ?s2"
  have p0: "gamePhase ?s0 = Intake"
    by (simp add: exampleState_def startNewCase_def)
  have p1: "gamePhase ?s1 = Diagnosis"
    using nextPhase_steps_and_clamps [of ?s0] p0 by simp
  have p2: "gamePhase ?s2 = Treatment"
    using nextPhase_steps_and_clamps [of ?s1] p1 by simp
  have p3: "gamePhase ?s3 = Results"
    using nextPhase_steps_and_clamps [of ?s2] p2 by simp
  have p4: "nextPhase ?s3 = ?s3"
    using nextPhase_steps_and_clamps [of ?s3] p3 by simp
  show ?thesis
    using p1 p2 p3 p4 by simp
qed

subsection \<open>Range of the score\<close>

lemma perform_score_range:
  assumes "0 \<le> GameState.score prev" and "GameState.score prev \<le> 100"
  shows "0 \<le> GameState.score (perform op prev) \<and> GameState.score (perform op prev) \<le> 100"
proof (cases op)
  case (StartNewCase c)
  then show ?thesis by (simp add: startNewCase_def)
next
  case (RunDiagnosticTest g test vals ab)
  with assms show ?thesis
    by (simp add: runDiagnosticTest_def split: option.splits)
next
  case (SubmitDiagnosis d)
  with assms show ?thesis by (simp add: submitDiagnosis_def)
next
  case (SubmitTreatments g ts)
  with assms show ?thesis
    by (simp add: submitTreatments_def totalScore'_def diagnosisScore_def treatmentScore_def
        timeBonus_def split: option.splits)
next
  case NextPhase
  with assms show ?thesis by (simp add: nextPhase_successor)
qed

lemma foldl_perform_score_range:
  "0 \<le> GameState.score s \<Longrightarrow> GameState.score s \<le> 100 \<Longrightarrow>
   0 \<le> GameState.score (foldl (\<lambda>prev op. perform op prev) s ops)
   \<and> GameState.score (foldl (\<lambda>prev op. perform op prev) s ops) \<le> 100"
proof (induction ops arbitrary: s)
  case Nil
  then show ?case by simp
next
  case (Cons op ops)
  from perform_score_range [OF Cons.prems, of op] Cons.IH [of "perform op s"]
  show ?case by simp
qed

lemma engine_run_score_range:
  "0 \<le> GameState.score (engine_run ops) \<and> GameState.score (engine_run ops) \<le> 100"
  unfolding engine_run_def
  by (rule foldl_perform_score_range) (simp_all add: initialGameState_def)

lemma handleGameComplete_sessions:
  "gameSessions (handleGameComplete (Some c) gameState localDiagnosis sessionId now x elapsed env db)
     = gameSessions db
   \<or> gameSessions (handleGameComplete (Some c) gameState localDiagnosis sessionId now x elapsed env db)
     = insort_key GameSession.id'
         (newSession c gameState localDiagnosis sessionId now x elapsed) (gameSessions db)"
  by (auto simp: handleGameComplete_def saveGameSession_def store_add_def awaited_def
      markCaseCompleted_def updateUserData_def Let_def split: option.splits sum.splits)

lemma handleGameComplete_new_session:
  assumes "s \<in> set (gameSessions
      (handleGameComplete selectedCase gameState localDiagnosis sessionId now x elapsed env db))"
  shows "s \<in> set (gameSessions db) \<or> GameSession.score s = Some (Num x)"
proof (cases selectedCase)
  case None
  with assms show ?thesis
    by (simp add: handleGameComplete_def)
next
  case (Some c)
  from handleGameComplete_sessions [of c gameState localDiagnosis sessionId now x elapsed env db]
    assms Some
  show ?thesis
    by (auto simp: set_insort_key newSession_def)
qed

text \<open>
  Claim C9. With a case bound and a non-negative elapsed time, each of the three
  summands is non-negative and the score that \<open>submitTreatments\<close> records is their sum
  capped at 100, so it lies between 0 and 100. The score of the engine lies between 0 and
  100 after every run of its operations, and the session that the submit handler stores
  from a rendered state of the engine carries the score of that state: every session of
  the store after the handler was there before or has a score between 0 and 100.
\<close>

theorem submitTreatments_score_range:
  "(currentCase gameState = Some c \<and> 0 \<le> GameState.timeElapsed gameState \<longrightarrow>
      0 \<le> diagnosisScore gameState c
      \<and> 0 \<le> treatmentScore c treatments
      \<and> 0 \<le> timeBonus gameState
      \<and> GameState.score (submitTreatments gameState treatments prev)
          = min 100 (diagnosisScore gameState c + treatmentScore c treatments + timeBonus gameState)
      \<and> 0 \<le> GameState.score (submitTreatments gameState treatments prev)
      \<and> GameState.score (submitTreatments gameState treatments prev) \<le> 100)
   \<and> 0 \<le> GameState.score (engine_run ops)
   \<and> GameState.score (engine_run ops) \<le> 100
   \<and> (\<forall>s \<in> set (gameSessions (snd (snd (snd
           (onSubmit selectedCase (engine_run ops) localDiagnosis diagnosis chosen sessionId now
              env db))))).
         s \<in> set (gameSessions db)
         \<or> (GameSession.score s = Some (Num (real_of_int (GameState.score (engine_run ops))))
             \<and> 0 \<le> GameState.score (engine_run ops)
             \<and> GameState.score (engine_run ops) \<le> 100))"
proof -
  have formula: "currentCase gameState = Some c \<and> 0 \<le> GameState.timeElapsed gameState \<longrightarrow>
      0 \<le> diagnosisScore gameState c
      \<and> 0 \<le> treatmentScore c treatments
      \<and> 0 \<le> timeBonus gameState
      \<and> GameState.score (submitTreatments gameState treatments prev)
          = min 100 (diagnosisScore gameState c + treatmentScore c treatments + timeBonus gameState)
      \<and> 0 \<le> GameState.score (submitTreatments gameState treatments prev)
      \<and> GameState.score (submitTreatments gameState treatments prev) \<le> 100"
  proof
    assume h: "currentCase gameState = Some c \<and> 0 \<le> GameState.timeElapsed gameState"
    have d: "0 \<le> diagnosisScore gameState c"
      by (simp add: diagnosisScore_def)
    have t: "0 \<le> treatmentScore c treatments"
      by (simp add: treatmentScore_def)
    have b: "0 \<le> timeBonus gameState"
      by (simp add: timeBonus_def)
    have s: "GameState.score (submitTreatments gameState treatments prev)
          = min 100 (diagnosisScore gameState c + treatmentScore c treatments + timeBonus gameState)"
      using h by (simp add: submitTreatments_def totalScore'_def)
    have lo: "0 \<le> GameState.score (submitTreatments gameState treatments prev)"
      unfolding s using d t b by simp
    have hi: "GameState.score (submitTreatments gameState treatments prev) \<le> 100"
      unfolding s by simp
    from d t b s lo hi
    show "0 \<le> diagnosisScore gameState c
      \<and> 0 \<le> treatmentScore c treatments
      \<and> 0 \<le> timeBonus gameState
      \<and> GameState.score (submitTreatments gameState treatments prev)
          = min 100 (diagnosisScore gameState c + treatmentScore c treatments + timeBonus gameState)
      \<and> 0 \<le> GameState.score (submitTreatments gameState treatments prev)
      \<and> GameState.score (submitTreatments gameState treatments prev) \<le> 100"
      by blast
  qed
  note range = engine_run_score_range [of ops]
  have stored: "\<forall>s \<in> set (gameSessions (snd (snd (snd
           (onSubmit selectedCase (engine_run ops) localDiagnosis diagnosis chosen sessionId now
              env db))))).
         s \<in> set (gameSessions db)
         \<or> (GameSession.score s = Some (Num (real_of_int (GameState.score (engine_run ops))))
             \<and> 0 \<le> GameState.score (engine_run ops)
             \<and> GameState.score (engine_run ops) \<le> 100)"
  proof
    fix s
    assume "s \<in> set (gameSessions (snd (snd (snd
           (onSubmit selectedCase (engine_run ops) localDiagnosis diagnosis chosen sessionId now
              env db)))))"
    then have "s \<in> set (gameSessions
        (handleGameComplete selectedCase (engine_run ops) localDiagnosis sessionId now
           (real_of_int (GameState.score (engine_run ops)))
           (GameState.timeElapsed (engine_run ops)) env db))"
      by (simp add: onSubmit_def)
    from handleGameComplete_new_session [OF this] range
    show "s \<in> set (gameSessions db)
         \<or> (GameSession.score s = Some (Num (real_of_int (GameState.score (engine_run ops))))
             \<and> 0 \<le> GameState.score (engine_run ops)
             \<and> GameState.score (engine_run ops) \<le> 100)"
      by blast
  qed
  from formula range stored show ?thesis
    by blast
qed

theorem submitTreatments_score_range_witness:
  "currentCase (exampleState (Some ''Hypothyroidism'') 130) = Some exampleCase
   \<and> diagnosisScore (exampleState (Some ''Hypothyroidism'') 130) exampleCase = 100
   \<and> treatmentScore exampleCase [''Levothyroxine''] = 25
   \<and> timeBonus (exampleState (Some ''Hypothyroidism'') 130) = 87
   \<and> GameState.score (submitTreatments (exampleState (Some ''Hypothyroidism'') 130)
         [''Levothyroxine''] initialGameState) = 100
   \<and> GameState.score (submitTreatments (exampleState None 995)
         [''Levothyroxine'', ''Insulin''] initialGameState) = 26
   \<and> GameState.score (engine_run exampleRerun) = 26
   \<and> map GameSession.score (gameSessions (snd (snd (snd
         (onSubmit (Some exampleCase) (engine_run exampleRerun) [] ''Hypothyroidism''
            [''Levothyroxine''] ''session_a'' 5000000 allWork emptyDatabase)))))
       = [Some (Num 26)]
   \<and> map GameSession.score (gameSessions (snd (snd (snd
         (onSubmit (Some exampleCase) (engine_run exampleRun) [] ''Hypothyroidism''
            [''Levothyroxine''] ''session_a'' 5000000 allWork emptyDatabase)))))
       = [Some (Num 0)]
   \<and> GameState.score (fst (snd (snd
         (onSubmit (Some exampleCase) (engine_run exampleRun) [] ''Hypothyroidism''
            [''Levothyroxine''] ''session_a'' 5000000 allWork emptyDatabase)))) = 100"
proof -
  let ?g = "exampleState (Some ''Hypothyroidism'') 130"
  let ?h = "exampleState None 995"
  have c: "currentCase ?g = Some exampleCase" "currentCase ?h = Some exampleCase"
    by (simp_all add: exampleState_def startNewCase_def)
  have e: "0 \<le> GameState.timeElapsed ?g" "0 \<le> GameState.timeElapsed ?h"
    by (simp_all add: exampleState_def startNewCase_def)
  have d: "diagnosisScore ?g exampleCase = 100" "diagnosisScore ?h exampleCase = 0"
    by (simp_all add: diagnosisScore_def exampleState_def startNewCase_def exampleCase_def)
  have t: "treatmentScore exampleCase [''Levothyroxine''] = 25"
      "treatmentScore exampleCase [''Levothyroxine'', ''Insulin''] = 25"
    by (simp_all add: treatmentScore_def exampleCase_def)
  have b: "timeBonus ?g = 87" "timeBonus ?h = 1"
    by (simp_all add: timeBonus_def exampleState_def startNewCase_def)
  note first = submitTreatments_score_range [of ?g exampleCase "[''Levothyroxine'']"
      initialGameState exampleRerun "Some exampleCase" "[]" "''Hypothyroidism''"
      "[''Levothyroxine'']" "''session_a''" 5000000 allWork emptyDatabase]
  note second = submitTreatments_score_range [of ?h exampleCase "[''Levothyroxine'', ''Insulin'']"
      initialGameState exampleRun "Some exampleCase" "[]" "''Hypothyroidism''"
      "[''Levothyroxine'']" "''session_a''" 5000000 allWork emptyDatabase]
  have s1: "GameState.score (submitTreatments ?g [''Levothyroxine''] initialGameState) = 100"
    using first c(1) e(1) d(1) t(1) b(1) by simp
  have s2: "GameState.score (submitTreatments ?h [''Levothyroxine'', ''Insulin''] initialGameState) = 26"
    using second c(2) e(2) d(2) t(2) b(2) by simp
  have rerun: "engine_run exampleRerun
      = submitTreatments ?h [''Levothyroxine'', ''Insulin''] (startNewCase exampleCase)"
    by (simp add: engine_run_def exampleRerun_def)
  have r26: "GameState.score (engine_run exampleRerun) = 26"
    unfolding rerun using c(2) d(2) t(2) b(2)
    by (simp add: submitTreatments_def totalScore'_def)
  have run: "engine_run exampleRun = (startNewCase exampleCase)\<lparr>gamePhase := Treatment\<rparr>"
    by (simp add: engine_run_def exampleRun_def nextPhase_successor startNewCase_def)
  have r0: "GameState.score (engine_run exampleRun) = 0"
    by (simp add: run startNewCase_def)
  have stored: "\<And>g. gameSessions (snd (snd (snd
         (onSubmit (Some exampleCase) g [] ''Hypothyroidism''
            [''Levothyroxine''] ''session_a'' 5000000 allWork emptyDatabase))))
       = [newSession exampleCase g [] ''session_a'' 5000000
            (real_of_int (GameState.score g)) (GameState.timeElapsed g)]"
    by (simp add: onSubmit_def handleGameComplete_def saveGameSession_def store_add_def
        store_get_def allWork_def awaited_def emptyDatabase_def markCaseCompleted_def
        updateUserData_def Let_def)
  have m26: "map GameSession.score (gameSessions (snd (snd (snd
         (onSubmit (Some exampleCase) (engine_run exampleRerun) [] ''Hypothyroidism''
            [''Levothyroxine''] ''session_a'' 5000000 allWork emptyDatabase)))))
       = [Some (Num 26)]"
    by (simp add: stored r26 newSession_def)
  have m0: "map GameSession.score (gameSessions (snd (snd (snd
         (onSubmit (Some exampleCase) (engine_run exampleRun) [] ''Hypothyroidism''
            [''Levothyroxine''] ''session_a'' 5000000 allWork emptyDatabase)))))
       = [Some (Num 0)]"
    by (simp add: stored r0 newSession_def)
  have after: "GameState.score (fst (snd (snd
         (onSubmit (Some exampleCase) (engine_run exampleRun) [] ''Hypothyroidism''
            [''Levothyroxine''] ''session_a'' 5000000 allWork emptyDatabase)))) = 100"
    by (simp add: onSubmit_def run submitTreatments_def startNewCase_def totalScore'_def
        diagnosisScore_def treatmentScore_def timeBonus_def exampleCase_def)
  from c(1) d(1) t(1) b(1) s1 s2 r26 m26 m0 after show ?thesis
    by blast
qed

subsection \<open>Guards of the operations\<close>

text \<open>
  Claim C10. \<open>submitDiagnosis\<close> has no guard: on every state, with or without a case, it
  records the diagnosis and moves to \<open>treatment\<close>. \<open>runDiagnosticTest\<close> and
  \<open>submitTreatments\<close> return the state unchanged when no case is bound.
\<close>
theorem submitDiagnosis_unguarded:
  "submitDiagnosis diagnosis prev
     = prev\<lparr>GameState.selectedDiagnosis := Some diagnosis, gamePhase := Treatment\<rparr>
   \<and> GameState.selectedDiagnosis (submitDiagnosis diagnosis prev) = Some diagnosis
   \<and> gamePhase (submitDiagnosis diagnosis prev) = Treatment
   \<and> (currentCase gameState = None \<longrightarrow>
        runDiagnosticTest gameState test mockValues isAbnormal prev = prev
        \<and> submitTreatments gameState treatments prev = prev)"
  by (simp add: submitDiagnosis_def runDiagnosticTest_def submitTreatments_def)

theorem submitDiagnosis_unguarded_witness:
  "currentCase initialGameState = None
   \<and> GameState.selectedDiagnosis (submitDiagnosis ''Hypothyroidism'' initialGameState)
       = Some ''Hypothyroidism''
   \<and> gamePhase (submitDiagnosis ''Hypothyroidism'' initialGameState) = Treatment
   \<and> currentCase (submitDiagnosis ''Hypothyroidism'' initialGameState) = None
   \<and> runDiagnosticTest initialGameState exampleTest [] False initialGameState = initialGameState
   \<and> submitTreatments initialGameState [''Levothyroxine''] initialGameState = initialGameState"
  using submitDiagnosis_unguarded [of "''Hypothyroidism''" initialGameState initialGameState
          exampleTest "[]" False "[''Levothyroxine'']"]
  by (simp add: initialGameState_def)

section \<open>Properties of the persistent store\<close>

subsection \<open>Reading back what was put\<close>

lemma find_insort_key_hit:
  "P x \<Longrightarrow> find P xs = None \<Longrightarrow> find P (insort_key f x xs) = Some x"
  by (induction xs) (auto split: if_splits)

lemma find_insort_key_miss:
  "\<not> P x \<Longrightarrow> find P (insort_key f x xs) = find P xs"
  by (induction xs) auto

lemma find_filter_none: "find (\<lambda>r. key r = k) (filter (\<lambda>x. key x \<noteq> k) rs) = None"
  by (induction rs) auto

lemma find_filter_other:
  "k \<noteq> k' \<Longrightarrow> find (\<lambda>r. key r = k) (filter (\<lambda>x. key x \<noteq> k') rs) = find (\<lambda>r. key r = k) rs"
  by (induction rs) auto

lemma store_get_put_same: "store_get key (key r) (store_put key r rs) = Some r"
  by (simp add: store_get_def store_put_def find_insort_key_hit find_filter_none)

lemma store_get_put_other:
  "k \<noteq> key r \<Longrightarrow> store_get key k (store_put key r rs) = store_get key k rs"
  by (simp add: store_get_def store_put_def find_insort_key_miss find_filter_other)

text \<open>
  Claim C7 as stated speaks of every profile. A profile whose \<open>id\<close> is not
  \<open>'player1'\<close> is stored under its own key, and \<open>getUserData\<close>, which reads the key
  \<open>'player1'\<close>, answers with the default profile on a store that was empty.
\<close>

theorem profile_roundtrip_counterexample:
  "getUserData 2000 (updateUserData strangerProfile 2000 emptyDatabase) = defaultData 2000
   \<and> UserData.gamesPlayed (getUserData 2000 (updateUserData strangerProfile 2000 emptyDatabase))
       \<noteq> UserData.gamesPlayed (strangerProfile\<lparr>lastPlayed := 2000\<rparr>)
   \<and> getUserData 2000 (updateUserData strangerProfile 2000 emptyDatabase)
       \<noteq> strangerProfile\<lparr>lastPlayed := 2000\<rparr>"
proof -
  have read: "getUserData 2000 (updateUserData strangerProfile 2000 emptyDatabase) = defaultData 2000"
    by (simp add: getUserData_def updateUserData_def emptyDatabase_def store_get_def store_put_def
        strangerProfile_def exampleProfile_def)
  have games: "UserData.gamesPlayed (defaultData 2000)
      \<noteq> UserData.gamesPlayed (strangerProfile\<lparr>lastPlayed := 2000\<rparr>)"
    by (simp add: defaultData_def strangerProfile_def exampleProfile_def)
  then have "defaultData 2000 \<noteq> strangerProfile\<lparr>lastPlayed := 2000\<rparr>"
    by auto
  with read games show ?thesis
    by simp
qed

text \<open>
  Claim C7, amended. For every profile whose \<open>id\<close> is \<open>'player1'\<close>,
  \<open>updateUserData\<close> followed by \<open>getUserData\<close> returns the profile in all fields
  except \<open>lastPlayed\<close>, which is the clock reading of the store at the write whatever
  the caller supplied, and so not earlier than any time at or before that reading.
\<close>

theorem profile_roundtrip:
  assumes "UserData.id' p = ''player1''"
  shows "getUserData readTime (updateUserData p now db) = p\<lparr>lastPlayed := now\<rparr>
         \<and> lastPlayed (getUserData readTime (updateUserData p now db)) = now
         \<and> getUserData readTime (updateUserData (p\<lparr>lastPlayed := supplied\<rparr>) now db)
             = getUserData readTime (updateUserData p now db)
         \<and> (callTime \<le> now \<longrightarrow>
              callTime \<le> lastPlayed (getUserData readTime (updateUserData p now db)))"
proof -
  have key: "UserData.id' (p\<lparr>lastPlayed := now\<rparr>) = ''player1''"
    using assms by simp
  have read: "getUserData readTime (updateUserData p now db) = p\<lparr>lastPlayed := now\<rparr>"
    unfolding getUserData_def updateUserData_def
    using store_get_put_same [of UserData.id' "p\<lparr>lastPlayed := now\<rparr>" "userData db"] key
    by simp
  have key': "UserData.id' (p\<lparr>lastPlayed := supplied, lastPlayed := now\<rparr>) = ''player1''"
    using assms by simp
  have read': "getUserData readTime (updateUserData (p\<lparr>lastPlayed := supplied\<rparr>) now db)
      = p\<lparr>lastPlayed := now\<rparr>"
    unfolding getUserData_def updateUserData_def
    using store_get_put_same [of UserData.id' "p\<lparr>lastPlayed := supplied, lastPlayed := now\<rparr>" "userData db"] key'
    by simp
  show ?thesis
    using read read' by simp
qed

theorem profile_roundtrip_witness:
  "UserData.id' exampleProfile = ''player1''
   \<and> getUserData 3000 (updateUserData exampleProfile 2000 emptyDatabase)
       = exampleProfile\<lparr>lastPlayed := 2000\<rparr>
   \<and> lastPlayed exampleProfile = 1000
   \<and> lastPlayed (getUserData 3000 (updateUserData exampleProfile 2000 emptyDatabase)) = 2000"
  using profile_roundtrip [of exampleProfile 3000 2000 emptyDatabase 1000 2000]
  by (simp add: exampleProfile_def)

subsection \<open>Completion records\<close>

lemma getCaseStats_mark:
  "getCaseStats c (markCaseCompleted k s d t db) =
     (if k = c
      then Some \<lparr>caseId = c, completed = True, completionDate = t,
                 bestScore = (case getCaseStats c db of
                                Some e \<Rightarrow> max (CaseCompletion.bestScore e) s | None \<Rightarrow> s),
                 attempts = (case getCaseStats c db of Some e \<Rightarrow> attempts e + 1 | None \<Rightarrow> 1),
                 difficulty = d,
                 scores = (case getCaseStats c db of
                             Some e \<Rightarrow> CaseCompletion.scores e @ [s] | None \<Rightarrow> [s])\<rparr>
      else getCaseStats c db)"
proof (cases "k = c")
  case True
  let ?r = "\<lparr>caseId = c, completed = True, completionDate = t,
                 bestScore = (case getCaseStats c db of
                                Some e \<Rightarrow> max (CaseCompletion.bestScore e) s | None \<Rightarrow> s),
                 attempts = (case getCaseStats c db of Some e \<Rightarrow> attempts e + 1 | None \<Rightarrow> 1),
                 difficulty = d,
                 scores = (case getCaseStats c db of
                             Some e \<Rightarrow> CaseCompletion.scores e @ [s] | None \<Rightarrow> [s])\<rparr>"
  have "CaseCompletion.caseId ?r = c"
    by simp
  then have "store_get CaseCompletion.caseId c
      (store_put CaseCompletion.caseId ?r (caseCompletion db)) = Some ?r"
    using store_get_put_same [of CaseCompletion.caseId ?r "caseCompletion db"] by simp
  with True show ?thesis
    by (simp add: getCaseStats_def markCaseCompleted_def Let_def)
next
  case False
  then show ?thesis
    by (simp add: getCaseStats_def markCaseCompleted_def Let_def store_get_put_other)
qed

lemma markAll_Cons:
  "markAll ((k, s, d, t) # calls) db = markAll calls (markCaseCompleted k s d t db)"
  by (simp add: markAll_def)

lemma scores_for_Cons:
  "scores_for c ((k, s, d, t) # calls) = (if k = c then s # scores_for c calls else scores_for c calls)"
  by (simp add: scores_for_def)

lemma markAll_existing:
  "getCaseStats c db = Some r \<Longrightarrow>
   \<exists>r'. getCaseStats c (markAll calls db) = Some r'
      \<and> CaseCompletion.scores r' = CaseCompletion.scores r @ scores_for c calls
      \<and> attempts r' = attempts r + length (scores_for c calls)
      \<and> CaseCompletion.bestScore r' = foldl max (CaseCompletion.bestScore r) (scores_for c calls)
      \<and> CaseCompletion.completed r' = (CaseCompletion.completed r \<or> scores_for c calls \<noteq> [])
      \<and> CaseCompletion.caseId r' = CaseCompletion.caseId r"
proof (induction calls arbitrary: db r)
  case Nil
  then show ?case
    by (simp add: markAll_def scores_for_def)
next
  case (Cons call calls)
  obtain k s d t where call: "call = (k, s, d, t)"
    by (cases call) auto
  show ?case
  proof (cases "k = c")
    case True
    let ?r1 = "\<lparr>caseId = c, completed = True, completionDate = t,
                 bestScore = max (CaseCompletion.bestScore r) s,
                 attempts = attempts r + 1,
                 difficulty = d,
                 scores = CaseCompletion.scores r @ [s]\<rparr>"
    have "getCaseStats c (markCaseCompleted k s d t db) = Some ?r1"
      using True Cons.prems by (simp add: getCaseStats_mark)
    from Cons.IH [OF this] obtain r' where
      "getCaseStats c (markAll calls (markCaseCompleted k s d t db)) = Some r'"
      "CaseCompletion.scores r' = CaseCompletion.scores ?r1 @ scores_for c calls"
      "attempts r' = attempts ?r1 + length (scores_for c calls)"
      "CaseCompletion.bestScore r' = foldl max (CaseCompletion.bestScore ?r1) (scores_for c calls)"
      "CaseCompletion.completed r' = (CaseCompletion.completed ?r1 \<or> scores_for c calls \<noteq> [])"
      "CaseCompletion.caseId r' = CaseCompletion.caseId ?r1"
      by blast
    moreover have "CaseCompletion.caseId r = c"
      using Cons.prems by (auto simp: getCaseStats_def store_get_def dest: find_Some_iff [THEN iffD1])
    ultimately show ?thesis
      using True by (simp add: call markAll_Cons scores_for_Cons)
  next
    case False
    have "getCaseStats c (markCaseCompleted k s d t db) = Some r"
      using False Cons.prems by (simp add: getCaseStats_mark)
    from Cons.IH [OF this] show ?thesis
      using False by (simp add: call markAll_Cons scores_for_Cons)
  qed
qed

lemma markAll_fresh:
  "getCaseStats c db = None \<Longrightarrow>
   (case scores_for c calls of
      [] \<Rightarrow> getCaseStats c (markAll calls db) = None
    | s # rest \<Rightarrow>
        (\<exists>r'. getCaseStats c (markAll calls db) = Some r'
           \<and> CaseCompletion.scores r' = s # rest
           \<and> attempts r' = length (s # rest)
           \<and> CaseCompletion.bestScore r' = foldl max s rest
           \<and> CaseCompletion.completed r'
           \<and> CaseCompletion.caseId r' = c))"
proof (induction calls arbitrary: db)
  case Nil
  then show ?case
    by (simp add: markAll_def scores_for_def)
next
  case (Cons call calls)
  obtain k s d t where call: "call = (k, s, d, t)"
    by (cases call) auto
  show ?case
  proof (cases "k = c")
    case True
    let ?r1 = "\<lparr>caseId = c, completed = True, completionDate = t, bestScore = s,
                 attempts = 1, difficulty = d, scores = [s]\<rparr>"
    have "getCaseStats c (markCaseCompleted k s d t db) = Some ?r1"
      using True Cons.prems by (simp add: getCaseStats_mark)
    from markAll_existing [OF this, of calls] show ?thesis
      using True by (auto simp: call markAll_Cons scores_for_Cons)
  next
    case False
    have "getCaseStats c (markCaseCompleted k s d t db) = None"
      using False Cons.prems by (simp add: getCaseStats_mark)
    from Cons.IH [OF this] show ?thesis
      using False by (simp add: call markAll_Cons scores_for_Cons split: list.splits)
  qed
qed

lemma foldl_max_Max: "foldl max (s::real) rest = Max (set (s # rest))"
proof -
  have flip: "(\<lambda>x (y::real). max y x) = max"
    by (intro ext) (simp add: max.commute)
  show ?thesis
    by (simp only: Max.set_eq_fold foldl_conv_fold flip)
qed

text \<open>
  Claim C3. Starting from a store with no record of the case, after any sequence of
  \<open>markCaseCompleted\<close> calls of which N are for that case (N at least one, calls for
  other cases in between allowed), the record of the case has \<open>attempts = N\<close>, its
  \<open>scores\<close> are the N scores in call order, its \<open>bestScore\<close> is their maximum and it is
  \<open>completed\<close>; the first call creates the record with \<open>attempts = 1\<close>.
\<close>

theorem markCaseCompleted_sequence:
  assumes "getCaseStats c db = None" and "scores_for c calls \<noteq> []"
  shows "map_option attempts (getCaseStats c (markAll calls db)) = Some (length (scores_for c calls))
         \<and> map_option CaseCompletion.scores (getCaseStats c (markAll calls db))
             = Some (scores_for c calls)
         \<and> map_option CaseCompletion.bestScore (getCaseStats c (markAll calls db))
             = Some (Max (set (scores_for c calls)))
         \<and> map_option CaseCompletion.completed (getCaseStats c (markAll calls db)) = Some True
         \<and> getCaseStats c (markCaseCompleted c s d t db)
             = Some \<lparr>caseId = c, completed = True, completionDate = t, bestScore = s,
                       attempts = 1, difficulty = d, scores = [s]\<rparr>"
proof -
  obtain s0 rest where ss: "scores_for c calls = s0 # rest"
    using assms(2) by (cases "scores_for c calls") auto
  from markAll_fresh [OF assms(1), of calls] ss obtain r' where
    r': "getCaseStats c (markAll calls db) = Some r'"
      "CaseCompletion.scores r' = s0 # rest"
      "attempts r' = length (s0 # rest)"
      "CaseCompletion.bestScore r' = foldl max s0 rest"
      "CaseCompletion.completed r'"
    by auto
  have first: "getCaseStats c (markCaseCompleted c s d t db)
             = Some \<lparr>caseId = c, completed = True, completionDate = t, bestScore = s,
                       attempts = 1, difficulty = d, scores = [s]\<rparr>"
    using assms(1) by (simp add: getCaseStats_mark)
  show ?thesis
    using r' first by (simp add: ss foldl_max_Max)
qed

theorem markCaseCompleted_sequence_witness:
  "getCaseStats ''case-001'' emptyDatabase = None
   \<and> scores_for ''case-001'' exampleCalls = [60, 85, 70]
   \<and> map_option attempts (getCaseStats ''case-001'' (markAll exampleCalls emptyDatabase)) = Some 3
   \<and> map_option CaseCompletion.scores (getCaseStats ''case-001'' (markAll exampleCalls emptyDatabase))
       = Some [60, 85, 70]
   \<and> map_option CaseCompletion.bestScore (getCaseStats ''case-001'' (markAll exampleCalls emptyDatabase))
       = Some 85"
proof -
  have none: "getCaseStats ''case-001'' emptyDatabase = None"
    by (simp add: getCaseStats_def emptyDatabase_def store_get_def)
  have ss: "scores_for ''case-001'' exampleCalls = [60, 85, 70]"
    by (simp add: scores_for_def exampleCalls_def)
  then have ne: "scores_for ''case-001'' exampleCalls \<noteq> []"
    by simp
  have len: "length [60, 85, 70 :: real] = 3"
    by simp
  have best: "Max (set [60, 85, 70 :: real]) = 85"
    by simp
  note run = markCaseCompleted_sequence [OF none ne, of 60 "''medium''" 1000,
      unfolded ss len best]
  from run none ss show ?thesis
    by blast
qed

subsection \<open>Reading recent sessions\<close>

lemma cursor_loop_take:
  "cursor_loop ahead limit sessions count
     = sessions @ take (nat (limit - int count)) (filter shape_ok ahead)"
proof (induction ahead arbitrary: sessions count)
  case Nil
  then show ?case by simp
next
  case (Cons session ahead)
  show ?case
  proof (cases "int count < limit")
    case True
    then have n: "nat (limit - int count) = Suc (nat (limit - int (Suc count)))"
      by simp
    show ?thesis
      using True Cons.IH by (simp add: n del: of_nat_Suc)
  next
    case False
    then show ?thesis by simp
  qed
qed

lemma index_entry_startTime:
  "(t, s) \<in> set (startTime_index rs) \<Longrightarrow> startTime s = Some t"
  by (auto simp: startTime_index_def List.map_filter_def)

lemma startTime_index_sorted: "sorted_wrt (\<lambda>p q. fst p \<le> fst q) (startTime_index rs)"
proof -
  have "sorted (map fst (startTime_index rs))"
    by (simp add: startTime_index_def)
  then show ?thesis
    by (simp add: sorted_wrt_map)
qed

lemma sorted_wrt_mono_on:
  "sorted_wrt P xs \<Longrightarrow> (\<And>x y. x \<in> set xs \<Longrightarrow> y \<in> set xs \<Longrightarrow> P x y \<Longrightarrow> Q x y) \<Longrightarrow> sorted_wrt Q xs"
  by (induction xs) auto

lemma openCursor_prev_newest_first: "sorted_wrt not_older (openCursor_prev rs)"
proof -
  have "sorted_wrt (\<lambda>p q. fst q \<le> fst p) (rev (startTime_index rs))"
    using startTime_index_sorted [of rs] by (simp add: sorted_wrt_rev)
  then have "sorted_wrt (\<lambda>p q. not_older (snd p) (snd q)) (rev (startTime_index rs))"
  proof (rule sorted_wrt_mono_on)
    fix p q
    assume "p \<in> set (rev (startTime_index rs))" and "q \<in> set (rev (startTime_index rs))"
      and le: "fst q \<le> fst p"
    then have "startTime (snd p) = Some (fst p)" and "startTime (snd q) = Some (fst q)"
      using index_entry_startTime [of "fst p" "snd p" rs]
            index_entry_startTime [of "fst q" "snd q" rs] by simp_all
    with le show "not_older (snd p) (snd q)"
      by simp
  qed
  then show ?thesis
    by (simp add: openCursor_prev_def sorted_wrt_map)
qed

lemma sorted_wrt_take_filter:
  "sorted_wrt P xs \<Longrightarrow> sorted_wrt P (take n (filter Q xs))"
  by (simp add: sorted_wrt_filter sorted_wrt_take)

lemma cursor_two_records:
  assumes "shape_ok a" and "startTime a = Some t" and "\<not> shape_ok b"
    and "rs = [a, b] \<or> rs = [b, a]"
  shows "filter shape_ok (openCursor_prev rs) = [a]"
proof (cases "startTime b")
  case None
  with assms show ?thesis
    by (auto simp: openCursor_prev_def startTime_index_def)
next
  case (Some u)
  with assms show ?thesis
    by (auto simp: openCursor_prev_def startTime_index_def)
qed

lemma getGameSessions_works:
  "rejection io = None \<Longrightarrow>
   getGameSessions io db limit
     = Inr (take (nat limit) (filter shape_ok (openCursor_prev (gameSessions db))))"
  by (simp add: getGameSessions_def cursor_loop_take)

lemma getGameSessions_rejected:
  "rejection io = Some e \<Longrightarrow> getGameSessions io db limit = Inl e"
  by (simp add: getGameSessions_def)

lemma getGameSessions_resolved:
  assumes "getGameSessions io db limit = Inr sessions"
  shows "sessions = take (nat limit) (filter shape_ok (openCursor_prev (gameSessions db)))"
  using assms by (cases "rejection io") (simp_all add: getGameSessions_def cursor_loop_take)

lemma indexed_records:
  "map snd (List.map_filter (\<lambda>s. map_option (\<lambda>t. (t, s)) (startTime s)) rs)
     = filter (\<lambda>s. startTime s \<noteq> None) rs"
  by (induction rs) (auto split: option.splits)

lemma set_openCursor_prev:
  "set (openCursor_prev rs) = {s \<in> set rs. startTime s \<noteq> None}"
proof -
  have "set (openCursor_prev rs)
      = set (map snd (List.map_filter (\<lambda>s. map_option (\<lambda>t. (t, s)) (startTime s)) rs))"
    by (simp add: openCursor_prev_def startTime_index_def)
  then show ?thesis
    by (simp only: indexed_records) auto
qed

text \<open>
  Claim C6 as stated says that the read never throws. \<open>getGameSessions\<close> rejects when
  \<open>init\<close> throws or rejects and when the cursor request fails, also on the store of
  one well-formed session and one record without \<open>score\<close>.
\<close>

theorem getGameSessions_never_throws_counterexample:
  "shape_ok sessionA \<and> GameSession.score sessionB = None
   \<and> getGameSessions NoIndexedDB (exampleStore\<lparr>gameSessions := [sessionA, sessionB]\<rparr>) 10
       = Inl NotSupported
   \<and> getGameSessions OpenFails (exampleStore\<lparr>gameSessions := [sessionA, sessionB]\<rparr>) 10
       = Inl OpenError
   \<and> getGameSessions RequestFails (exampleStore\<lparr>gameSessions := [sessionA, sessionB]\<rparr>) 10
       = Inl RequestError"
  by (simp add: getGameSessions_def shape_ok_def sessionA_def sessionB_def)

text \<open>
  Claim C6, amended. When \<open>init\<close> and the cursor request succeed, \<open>getGameSessions\<close>
  resolves, whatever the store holds, with the first \<open>limit\<close> records of the index,
  walked from the newest start time down, that pass the shape check; it rejects only when
  \<open>init\<close> or the request fails, with that error. A resolved result is ordered newest
  first and holds exactly records that pass the check: none with an empty \<open>id\<close>, without
  a \<open>caseId\<close> or without a numeric \<open>score\<close>, and, when the limit is not reached, every
  indexed record that passes. On a store of one well-formed session and one record
  without \<open>score\<close> it resolves with the well-formed one alone.
\<close>

theorem getGameSessions_newest_first_well_formed:
  "(rejection io = None \<longrightarrow>
      getGameSessions io db limit
        = Inr (take (nat limit) (filter shape_ok (openCursor_prev (gameSessions db)))))
   \<and> (\<forall>e. rejection io = Some e \<longrightarrow> getGameSessions io db limit = Inl e)
   \<and> (shape_ok s \<longleftrightarrow>
        GameSession.id' s \<noteq> [] \<and> truthy (GameSession.caseId s) \<and> GameSession.score s \<noteq> None)
   \<and> (\<forall>sessions. getGameSessions io db limit = Inr sessions \<longrightarrow>
        newest_first sessions
        \<and> list_all shape_ok sessions
        \<and> set sessions \<subseteq> set (gameSessions db)
        \<and> (GameSession.id' s = [] \<or> \<not> truthy (GameSession.caseId s) \<or> GameSession.score s = None
             \<longrightarrow> s \<notin> set sessions)
        \<and> (int (length (filter shape_ok (openCursor_prev (gameSessions db)))) \<le> limit \<longrightarrow>
             set sessions = {x \<in> set (gameSessions db). shape_ok x \<and> startTime x \<noteq> None}))
   \<and> (rejection io = None \<and> shape_ok a \<and> startTime a \<noteq> None \<and> GameSession.score b = None
        \<and> 0 < limit \<and> (gameSessions db = [a, b] \<or> gameSessions db = [b, a])
        \<longrightarrow> getGameSessions io db limit = Inr [a])"
proof -
  let ?cursor = "openCursor_prev (gameSessions db)"
  let ?result = "take (nat limit) (filter shape_ok ?cursor)"
  have works: "rejection io = None \<longrightarrow> getGameSessions io db limit = Inr ?result"
    using getGameSessions_works by blast
  have rejected: "\<forall>e. rejection io = Some e \<longrightarrow> getGameSessions io db limit = Inl e"
    using getGameSessions_rejected by blast
  have shape: "shape_ok s \<longleftrightarrow>
        GameSession.id' s \<noteq> [] \<and> truthy (GameSession.caseId s) \<and> GameSession.score s \<noteq> None"
    by (cases "GameSession.score s") (simp_all add: shape_ok_def)
  have ordered: "newest_first ?result"
    unfolding newest_first_def
    by (rule sorted_wrt_take_filter) (rule openCursor_prev_newest_first)
  have within: "set ?result \<subseteq> {x. shape_ok x}"
    using set_take_subset [of "nat limit"] by fastforce
  then have all: "list_all shape_ok ?result"
    by (auto simp: list_all_iff)
  have stored: "set ?result \<subseteq> set (gameSessions db)"
    using set_take_subset [of "nat limit" "filter shape_ok ?cursor"]
    by (auto simp: set_openCursor_prev)
  have dropped: "GameSession.id' s = [] \<or> \<not> truthy (GameSession.caseId s) \<or> GameSession.score s = None
        \<longrightarrow> s \<notin> set ?result"
    using within by (auto simp: shape_ok_def)
  have everything: "int (length (filter shape_ok ?cursor)) \<le> limit \<longrightarrow>
      set ?result = {x \<in> set (gameSessions db). shape_ok x \<and> startTime x \<noteq> None}"
  proof
    assume "int (length (filter shape_ok ?cursor)) \<le> limit"
    then have "length (filter shape_ok ?cursor) \<le> nat limit"
      by linarith
    then have "?result = filter shape_ok ?cursor"
      by simp
    then show "set ?result = {x \<in> set (gameSessions db). shape_ok x \<and> startTime x \<noteq> None}"
      by (auto simp: set_openCursor_prev)
  qed
  have resolved: "\<forall>sessions. getGameSessions io db limit = Inr sessions \<longrightarrow>
        newest_first sessions
        \<and> list_all shape_ok sessions
        \<and> set sessions \<subseteq> set (gameSessions db)
        \<and> (GameSession.id' s = [] \<or> \<not> truthy (GameSession.caseId s) \<or> GameSession.score s = None
             \<longrightarrow> s \<notin> set sessions)
        \<and> (int (length (filter shape_ok ?cursor)) \<le> limit \<longrightarrow>
             set sessions = {x \<in> set (gameSessions db). shape_ok x \<and> startTime x \<noteq> None})"
  proof (intro allI impI)
    fix sessions
    assume "getGameSessions io db limit = Inr sessions"
    then have "sessions = ?result"
      by (rule getGameSessions_resolved)
    with ordered all stored dropped everything
    show "newest_first sessions
        \<and> list_all shape_ok sessions
        \<and> set sessions \<subseteq> set (gameSessions db)
        \<and> (GameSession.id' s = [] \<or> \<not> truthy (GameSession.caseId s) \<or> GameSession.score s = None
             \<longrightarrow> s \<notin> set sessions)
        \<and> (int (length (filter shape_ok ?cursor)) \<le> limit \<longrightarrow>
             set sessions = {x \<in> set (gameSessions db). shape_ok x \<and> startTime x \<noteq> None})"
      by blast
  qed
  have two: "rejection io = None \<and> shape_ok a \<and> startTime a \<noteq> None \<and> GameSession.score b = None
        \<and> 0 < limit \<and> (gameSessions db = [a, b] \<or> gameSessions db = [b, a])
        \<longrightarrow> getGameSessions io db limit = Inr [a]"
  proof
    assume h: "rejection io = None \<and> shape_ok a \<and> startTime a \<noteq> None \<and> GameSession.score b = None
        \<and> 0 < limit \<and> (gameSessions db = [a, b] \<or> gameSessions db = [b, a])"
    then obtain t where t: "startTime a = Some t"
      by auto
    have nb: "\<not> shape_ok b"
      using h by (simp add: shape_ok_def)
    have "filter shape_ok ?cursor = [a]"
      using cursor_two_records [OF _ t nb] h by blast
    moreover have "nat limit = Suc (nat (limit - 1))"
      using h by linarith
    ultimately have "?result = [a]"
      by simp
    with works h show "getGameSessions io db limit = Inr [a]"
      by simp
  qed
  from works rejected shape resolved two show ?thesis
    by blast
qed

theorem getGameSessions_newest_first_well_formed_witness:
  "rejection Works = None
   \<and> getGameSessions Works exampleStore 10 = Inr [sessionC, sessionA]
   \<and> newest_first [sessionC, sessionA]
   \<and> GameSession.score sessionB = None
   \<and> sessionB \<notin> set [sessionC, sessionA]
   \<and> shape_ok sessionA \<and> startTime sessionA \<noteq> None \<and> (0::int) < 10
   \<and> getGameSessions Works (exampleStore\<lparr>gameSessions := [sessionA, sessionB]\<rparr>) 10
       = Inr [sessionA]
   \<and> rejection RequestFails = Some RequestError
   \<and> getGameSessions RequestFails exampleStore 10 = Inl RequestError"
proof -
  have cursor: "openCursor_prev (gameSessions exampleStore) = [sessionB, sessionC, sessionA]"
    by (simp add: openCursor_prev_def startTime_index_def exampleStore_def
        sessionA_def sessionB_def sessionC_def)
  have shapes: "shape_ok sessionA" "\<not> shape_ok sessionB" "shape_ok sessionC"
    by (simp_all add: shape_ok_def sessionA_def sessionB_def sessionC_def)
  have noscore: "GameSession.score sessionB = None"
    by (simp add: sessionB_def)
  have start: "startTime sessionA \<noteq> None"
    by (simp add: sessionA_def)
  have two: "gameSessions (exampleStore\<lparr>gameSessions := [sessionA, sessionB]\<rparr>) = [sessionA, sessionB]"
    by simp
  have pos: "(0::int) < 10"
    by simp
  have w: "rejection Works = None" and r: "rejection RequestFails = Some RequestError"
    by simp_all
  note full = getGameSessions_newest_first_well_formed [of Works exampleStore 10 sessionB sessionA sessionB]
  note pair = getGameSessions_newest_first_well_formed
      [of Works "exampleStore\<lparr>gameSessions := [sessionA, sessionB]\<rparr>" 10 sessionB sessionA sessionB]
  note fails = getGameSessions_newest_first_well_formed [of RequestFails exampleStore 10 sessionB sessionA sessionB]
  have result: "getGameSessions Works exampleStore 10 = Inr [sessionC, sessionA]"
    using full w cursor shapes by simp
  have only: "getGameSessions Works (exampleStore\<lparr>gameSessions := [sessionA, sessionB]\<rparr>) 10
      = Inr [sessionA]"
    using pair w shapes(1) start noscore two pos by blast
  from full result have newest: "newest_first [sessionC, sessionA]"
    by blast
  from full result noscore have gone: "sessionB \<notin> set [sessionC, sessionA]"
    by blast
  from fails r have failed: "getGameSessions RequestFails exampleStore 10 = Inl RequestError"
    by blast
  from w result newest noscore gone shapes(1) start pos only r failed show ?thesis
    by blast
qed

subsection \<open>Statistics from the stored sessions\<close>




















subsection \<open>The profile after a completed game\<close>



















end
